theory Spec2Isabelle
  imports Main
begin

section \<open>JavaScript values used by the pricing engine\<close>

text \<open>
  The till keeps money as integer pence and quantities as integers (header comment of
  \<^verbatim>\<open>App.jsx\<close>: "Money is stored as integer pence to avoid float issues").
  A JavaScript number is therefore modelled as an integer, extended with the three
  non-finite values a configuration can still hold or an operation can still produce.
  Doubles are exact on integers below \<open>2 ^ 53\<close>; the model has no rounding, no
  fractions and no negative zero.
\<close>

datatype jsnum = Fin int | PosInf | NegInf | NaN

text \<open>
  A property of a deal entry read from the imported JSON configuration:
  missing (\<open>undefined\<close>), \<open>null\<close>, a boolean, a number or a string.
\<close>

datatype jsval = JUndefined | JNull | JBool bool | JNum jsnum | JStr string

subsection \<open>Arithmetic and comparison on numbers\<close>

fun sign_of :: "jsnum \<Rightarrow> int" where
  "sign_of (Fin a) = sgn a"
| "sign_of PosInf = 1"
| "sign_of NegInf = - 1"
| "sign_of NaN = 0"

definition inf_of :: "int \<Rightarrow> jsnum" where
  "inf_of s = (if 0 < s then PosInf else NegInf)"

text \<open>\<^verbatim>\<open>x * y\<close>: a non-finite factor times zero is \<open>NaN\<close>.\<close>

fun js_mul :: "jsnum \<Rightarrow> jsnum \<Rightarrow> jsnum" where
  "js_mul (Fin a) (Fin b) = Fin (a * b)"
| "js_mul NaN y = NaN"
| "js_mul x NaN = NaN"
| "js_mul x y = (if sign_of x * sign_of y = 0 then NaN else inf_of (sign_of x * sign_of y))"

text \<open>\<^verbatim>\<open>x + y\<close> on two numbers: opposite infinities give \<open>NaN\<close>.\<close>

fun js_add :: "jsnum \<Rightarrow> jsnum \<Rightarrow> jsnum" where
  "js_add (Fin a) (Fin b) = Fin (a + b)"
| "js_add NaN y = NaN"
| "js_add x NaN = NaN"
| "js_add PosInf NegInf = NaN"
| "js_add NegInf PosInf = NaN"
| "js_add (Fin a) y = y"
| "js_add x y = x"

text \<open>
  \<^verbatim>\<open>Math.floor(x / y)\<close>, taken as one operation so that the quotient need not be an
  integer. On integers with a non-zero divisor it is HOL's \<open>div\<close>, which rounds
  towards minus infinity as \<^verbatim>\<open>Math.floor\<close> does.
\<close>

fun js_floor_div :: "jsnum \<Rightarrow> jsnum \<Rightarrow> jsnum" where
  "js_floor_div (Fin a) (Fin b) =
     (if b \<noteq> 0 then Fin (a div b) else if a = 0 then NaN else inf_of (sgn a))"
| "js_floor_div NaN y = NaN"
| "js_floor_div x NaN = NaN"
| "js_floor_div (Fin a) y = Fin 0"
| "js_floor_div x (Fin b) = inf_of (sign_of x * (if b < 0 then - 1 else 1))"
| "js_floor_div x y = NaN"

text \<open>
  \<^verbatim>\<open>x % y\<close>: the remainder of truncating division, with the sign of the dividend.
\<close>

fun js_rem :: "jsnum \<Rightarrow> jsnum \<Rightarrow> jsnum" where
  "js_rem (Fin a) (Fin b) = (if b = 0 then NaN else Fin (sgn a * (\<bar>a\<bar> mod \<bar>b\<bar>)))"
| "js_rem NaN y = NaN"
| "js_rem x NaN = NaN"
| "js_rem (Fin a) y = Fin a"
| "js_rem x y = NaN"

text \<open>\<^verbatim>\<open>x < y\<close> on two numbers: every comparison with \<open>NaN\<close> is false.\<close>

fun js_lt :: "jsnum \<Rightarrow> jsnum \<Rightarrow> bool" where
  "js_lt (Fin a) (Fin b) = (a < b)"
| "js_lt NaN y = False"
| "js_lt x NaN = False"
| "js_lt x NegInf = False"
| "js_lt PosInf y = False"
| "js_lt x y = True"

definition js_gt :: "jsnum \<Rightarrow> jsnum \<Rightarrow> bool" where
  "js_gt x y = js_lt y x"

definition js_le :: "jsnum \<Rightarrow> jsnum \<Rightarrow> bool" where
  "js_le x y = (x \<noteq> NaN \<and> y \<noteq> NaN \<and> \<not> js_lt y x)"

definition js_ge :: "jsnum \<Rightarrow> jsnum \<Rightarrow> bool" where
  "js_ge x y = js_le y x"

subsection \<open>Coercions\<close>

text \<open>
  \<^verbatim>\<open>Number.isFinite(v)\<close> is true only for a value of type number that is finite:
  it does not coerce.
\<close>

fun Number_isFinite :: "jsval \<Rightarrow> bool" where
  "Number_isFinite (JNum (Fin a)) = True"
| "Number_isFinite v = False"

definition is_space :: "char \<Rightarrow> bool" where
  "is_space c = (c \<in> set [CHR '' '', CHR 0x09, CHR 0x0A, CHR 0x0B, CHR 0x0C, CHR 0x0D])"

definition trim :: "string \<Rightarrow> string" where
  "trim s = rev (dropWhile is_space (rev (dropWhile is_space s)))"

definition digit_val :: "char \<Rightarrow> nat option" where
  "digit_val c = map_of (zip ''0123456789'' [0 ..< 10]) c"

fun digits_val :: "nat \<Rightarrow> string \<Rightarrow> nat option" where
  "digits_val acc [] = Some acc"
| "digits_val acc (c # cs) =
     (case digit_val c of None \<Rightarrow> None | Some d \<Rightarrow> digits_val (10 * acc + d) cs)"

definition unsigned_literal :: "string \<Rightarrow> jsnum" where
  "unsigned_literal s =
     (if s = ''Infinity'' then PosInf
      else if s = [] then NaN
      else (case digits_val 0 s of None \<Rightarrow> NaN | Some n \<Rightarrow> Fin (int n)))"

text \<open>
  The conversion of a string to a number, on the literals the integer model can express:
  surrounding white space is ignored, the empty string is 0, then an optional sign and
  either decimal digits or \<^verbatim>\<open>Infinity\<close>. A string that is no numeric literal is
  \<open>NaN\<close>. Literals with a fraction, an exponent or a radix prefix denote numbers in
  JavaScript too; they are outside the integer model and no theorem below reads them.
\<close>

definition StringToNumber :: "string \<Rightarrow> jsnum" where
  "StringToNumber s =
     (case trim s of
        [] \<Rightarrow> Fin 0
      | c # cs \<Rightarrow>
          if c = CHR ''-'' then js_mul (Fin (- 1)) (unsigned_literal cs)
          else if c = CHR ''+'' then unsigned_literal cs
          else unsigned_literal (c # cs))"

fun ToNumber :: "jsval \<Rightarrow> jsnum" where
  "ToNumber JUndefined = NaN"
| "ToNumber JNull = Fin 0"
| "ToNumber (JBool b) = Fin (if b then 1 else 0)"
| "ToNumber (JNum n) = n"
| "ToNumber (JStr s) = StringToNumber s"

fun ToBoolean :: "jsval \<Rightarrow> bool" where
  "ToBoolean JUndefined = False"
| "ToBoolean JNull = False"
| "ToBoolean (JBool b) = b"
| "ToBoolean (JNum n) = (n \<noteq> Fin 0 \<and> n \<noteq> NaN)"
| "ToBoolean (JStr s) = (s \<noteq> [])"

subsection \<open>Rendering numbers as text\<close>

text \<open>
  Strings are byte lists; the pound sign, the multiplication sign and the infinity sign
  are written as their UTF-8 bytes.
\<close>

definition digit_char :: "nat \<Rightarrow> char" where
  "digit_char d = ''0123456789'' ! (d mod 10)"

fun show_nat :: "nat \<Rightarrow> string" where
  "show_nat n = (if n < 10 then [digit_char n] else show_nat (n div 10) @ [digit_char n])"

declare show_nat.simps [simp del]

definition show_int :: "int \<Rightarrow> string" where
  "show_int k = (if k < 0 then CHR ''-'' # show_nat (nat (- k)) else show_nat (nat k))"

fun show_num :: "jsnum \<Rightarrow> string" where
  "show_num (Fin k) = show_int k"
| "show_num PosInf = ''Infinity''"
| "show_num NegInf = ''-Infinity''"
| "show_num NaN = ''NaN''"

text \<open>
  What a template literal \<^verbatim>\<open>${v}\<close> inserts for a value; an integer is written in
  decimal digits (as JavaScript does below \<open>10 ^ 21\<close>).
\<close>

fun ToString :: "jsval \<Rightarrow> string" where
  "ToString JUndefined = ''undefined''"
| "ToString JNull = ''null''"
| "ToString (JBool b) = (if b then ''true'' else ''false'')"
| "ToString (JNum n) = show_num n"
| "ToString (JStr s) = s"

definition pound :: string where
  "pound = [CHR 0xC2, CHR 0xA3]"

definition times_sign :: string where
  "times_sign = [CHR 0xC3, CHR 0x97]"

definition infinity_sign :: string where
  "infinity_sign = [CHR 0xE2, CHR 0x88, CHR 0x9E]"

text \<open>Digit grouping of the \<^verbatim>\<open>en-GB\<close> locale: a comma before every three digits.\<close>

fun group3 :: "string \<Rightarrow> string" where
  "group3 s =
     (if length s \<le> 3 then s
      else group3 (take (length s - 3) s) @ CHR '','' # drop (length s - 3) s)"

declare group3.simps [simp del]

text \<open>
  \<^verbatim>\<open>GBP.format(n / 100)\<close> for the \<^verbatim>\<open>Intl.NumberFormat("en-GB", currency GBP)\<close>
  of the source, on a number of pence \<open>n\<close>: pounds, a point, two digits of pence.
\<close>

fun GBP_format_pence :: "jsnum \<Rightarrow> string" where
  "GBP_format_pence (Fin k) =
     (if k < 0 then ''-'' else []) @ pound @ group3 (show_nat (nat \<bar>k\<bar> div 100)) @ ''.''
       @ [digit_char (nat \<bar>k\<bar> mod 100 div 10), digit_char (nat \<bar>k\<bar> mod 10)]"
| "GBP_format_pence PosInf = pound @ infinity_sign"
| "GBP_format_pence NegInf = ''-'' @ pound @ infinity_sign"
| "GBP_format_pence NaN = pound @ ''NaN''"

text \<open>\<^verbatim>\<open>const formatPence = (p) => GBP.format((p || 0) / 100);\<close>\<close>

definition formatPence :: "jsval \<Rightarrow> string" where
  "formatPence p = GBP_format_pence (ToNumber (if ToBoolean p then p else JNum (Fin 0)))"

section \<open>The deal pricing engine (\<^verbatim>\<open>src/App.jsx\<close>)\<close>

text \<open>
  An element of the \<^verbatim>\<open>deals\<close> array. \<open>Nullish\<close> is \<^verbatim>\<open>null\<close> or
  \<^verbatim>\<open>undefined\<close> (reading a property of it throws); \<open>FalsyPrim\<close> is one of the
  other falsy values (\<^verbatim>\<open>0\<close>, \<^verbatim>\<open>""\<close>, \<^verbatim>\<open>false\<close>, \<^verbatim>\<open>NaN\<close>), whose
  properties all read as \<^verbatim>\<open>undefined\<close>; \<open>Obj t q p\<close> is a truthy value whose
  properties \<^verbatim>\<open>type\<close>, \<^verbatim>\<open>qty\<close> and \<^verbatim>\<open>pricePence\<close> read as \<open>t\<close>, \<open>q\<close>
  and \<open>p\<close> (a truthy primitive is \<open>Obj JUndefined JUndefined JUndefined\<close>).
\<close>

datatype deal_entry = Nullish | FalsyPrim | Obj jsval jsval jsval

text \<open>
  The \<^verbatim>\<open>deals\<close> argument, as the catalog read from JSON can hold it: falsy
  (\<open>DAbsent\<close>: the product has no \<^verbatim>\<open>deals\<close>, or there is no product), an array, or
  (\<open>DNonArray\<close>) another truthy JSON value, that is an object, a number, a string or
  \<^verbatim>\<open>true\<close>, given by what its \<^verbatim>\<open>length\<close> property reads as. Such a value has no
  \<^verbatim>\<open>filter\<close> method; values that are not arrays and have one (typed arrays, objects
  holding functions) cannot come out of \<^verbatim>\<open>JSON.parse\<close> and are not modelled.
\<close>

datatype deals_arg = DAbsent | DArray "deal_entry list" | DNonArray jsval

datatype error = TypeError

record line_total =
  totalPence :: jsnum
  dealNote :: "string option"

text \<open>The callback of \<^verbatim>\<open>deals.filter\<close>, lines 34 to 36 of \<^verbatim>\<open>src/App.jsx\<close>.\<close>

fun keepDeal :: "deal_entry \<Rightarrow> bool" where
  "keepDeal Nullish = False"
| "keepDeal FalsyPrim = False"
| "keepDeal (Obj t dq dp) =
     (t = JStr ''bundle'' \<and> Number_isFinite dq \<and> js_gt (ToNumber dq) (Fin 0)
      \<and> Number_isFinite dp \<and> js_ge (ToNumber dp) (Fin 0))"

text \<open>
  Reading \<^verbatim>\<open>d.qty\<close> and \<^verbatim>\<open>d.pricePence\<close> in the loop: a property read on
  \<^verbatim>\<open>null\<close> or \<^verbatim>\<open>undefined\<close> throws a \<^verbatim>\<open>TypeError\<close>.
\<close>

fun dealFields :: "deal_entry \<Rightarrow> error + jsval \<times> jsval" where
  "dealFields Nullish = Inl TypeError"
| "dealFields FalsyPrim = Inr (JUndefined, JUndefined)"
| "dealFields (Obj t dq dp) = Inr (dq, dp)"

text \<open>
  What one pass of the \<^verbatim>\<open>for (const d of bundleDeals)\<close> loop computes for a deal
  whose \<^verbatim>\<open>qty\<close> and \<^verbatim>\<open>pricePence\<close> read as \<open>dq\<close> and \<open>dp\<close>: the total of
  lines 45 to 47 and the object of lines 50 to 53 that becomes \<^verbatim>\<open>best\<close> when the
  total is smaller. The arithmetic operators coerce their operands to numbers.
\<close>

definition dealCandidate :: "int \<Rightarrow> int \<Rightarrow> jsval \<Rightarrow> jsval \<Rightarrow> line_total" where
  "dealCandidate unitPricePence qty dq dp =
     (let bundles = js_floor_div (Fin qty) (ToNumber dq);
          remainder = js_rem (Fin qty) (ToNumber dq);
          total = js_add (js_mul bundles (ToNumber dp)) (js_mul remainder (Fin unitPricePence))
      in \<lparr> totalPence = total,
           dealNote = (if js_gt bundles (Fin 0)
                       then Some (ToString dq @ '' for '' @ formatPence dp @ '' ''
                                  @ times_sign @ '' '' @ show_num bundles)
                       else None) \<rparr>)"

text \<open>
  The loop, lines 44 to 57: \<^verbatim>\<open>if (total < best.totalPence) best = {...}\<close>. The two
  source files have the same loop, character for character (lines 34 to 48 of the second
  file), so both functions below run it.
\<close>

fun forDeals :: "int \<Rightarrow> int \<Rightarrow> line_total \<Rightarrow> deal_entry list \<Rightarrow> error + line_total" where
  "forDeals unitPricePence qty best [] = Inr best"
| "forDeals unitPricePence qty best (d # ds) =
     (case dealFields d of
        Inl e \<Rightarrow> Inl e
      | Inr (dq, dp) \<Rightarrow>
          (let c = dealCandidate unitPricePence qty dq dp
           in forDeals unitPricePence qty
                (if js_lt (totalPence c) (totalPence best) then c else best) ds))"

definition noDeal :: "int \<Rightarrow> int \<Rightarrow> line_total" where
  "noDeal unitPricePence qty =
     \<lparr> totalPence = js_mul (Fin unitPricePence) (Fin qty), dealNote = None \<rparr>"

text \<open>\<^verbatim>\<open>!deals || deals.length === 0\<close>\<close>

fun noDeals :: "deals_arg \<Rightarrow> bool" where
  "noDeals DAbsent = True"
| "noDeals (DArray ds) = (length ds = 0)"
| "noDeals (DNonArray len) = (len = JNum (Fin 0))"

text \<open>
  \<^verbatim>\<open>bestLineTotalWithDeals({ unitPricePence, qty, deals })\<close>, lines 29 to 58 of
  \<^verbatim>\<open>src/App.jsx\<close>. Calling \<^verbatim>\<open>deals.filter\<close> on a \<open>DNonArray\<close> value, which
  has no such method, throws a \<^verbatim>\<open>TypeError\<close>.
\<close>

definition bestLineTotalWithDeals :: "int \<Rightarrow> int \<Rightarrow> deals_arg \<Rightarrow> error + line_total" where
  "bestLineTotalWithDeals unitPricePence qty deals =
     (if noDeals deals \<or> qty \<le> 0 then Inr (noDeal unitPricePence qty)
      else (case deals of
              DArray ds \<Rightarrow>
                (let bundleDeals = filter keepDeal ds
                 in if length bundleDeals = 0 then Inr (noDeal unitPricePence qty)
                    else forDeals unitPricePence qty (noDeal unitPricePence qty) bundleDeals)
            | _ \<Rightarrow> Inl TypeError))"

section \<open>The earlier copy of the engine (second source file)\<close>

text \<open>
  The second source file of the repository holds another \<^verbatim>\<open>bestLineTotalWithDeals\<close>
  (its lines 17 to 49). It differs from the one above in the callback of the filter only
  (line 24): \<^verbatim>\<open>d && d.type === "bundle" && d.qty > 0 && d.pricePence >= 0\<close>, with no
  \<^verbatim>\<open>Number.isFinite\<close>. The relational operators coerce their operands to numbers.
\<close>

fun keepDeal_part000 :: "deal_entry \<Rightarrow> bool" where
  "keepDeal_part000 Nullish = False"
| "keepDeal_part000 FalsyPrim = False"
| "keepDeal_part000 (Obj t dq dp) =
     (t = JStr ''bundle'' \<and> js_gt (ToNumber dq) (Fin 0) \<and> js_ge (ToNumber dp) (Fin 0))"

definition bestLineTotalWithDeals_part000 :: "int \<Rightarrow> int \<Rightarrow> deals_arg \<Rightarrow> error + line_total" where
  "bestLineTotalWithDeals_part000 unitPricePence qty deals =
     (if noDeals deals \<or> qty \<le> 0 then Inr (noDeal unitPricePence qty)
      else (case deals of
              DArray ds \<Rightarrow>
                (let bundleDeals = filter keepDeal_part000 ds
                 in if length bundleDeals = 0 then Inr (noDeal unitPricePence qty)
                    else forDeals unitPricePence qty (noDeal unitPricePence qty) bundleDeals)
            | _ \<Rightarrow> Inl TypeError))"

section \<open>The catalog resolver\<close>

text \<open>
  A \<^verbatim>\<open>pricesPence\<close> object maps unit names to pence. A band has an identifier, a name,
  its units and its prices. A product has its own \<^verbatim>\<open>units\<close> and \<^verbatim>\<open>pricesPence\<close>,
  or a \<^verbatim>\<open>bandId\<close>, or both; a property that is missing is \<open>None\<close>, and one that is
  present is truthy in JavaScript even when it is an empty array or an empty object.
\<close>

type_synonym prices = "string \<rightharpoonup> int"

record band =
  b_id :: string
  b_name :: string
  b_units :: "string list"
  b_pricesPence :: prices

record product =
  p_id :: string
  p_name :: string
  p_category :: string
  p_bandId :: "string option"
  p_units :: "string list option"
  p_pricesPence :: "prices option"
  p_deals :: deals_arg

record units_and_prices =
  units :: "string list"
  pricesPence :: prices

text \<open>
  \<^verbatim>\<open>bandById\<close>, lines 129 to 133: a \<^verbatim>\<open>Map\<close> filled band by band, a later band
  replacing an earlier one with the same identifier. \<open>mapGet\<close> is \<^verbatim>\<open>map.get(k)\<close>
  for a key that may be \<^verbatim>\<open>undefined\<close>; no band is stored under that key.
\<close>

definition bandById :: "band list \<Rightarrow> (string \<rightharpoonup> band)" where
  "bandById bands = fold (\<lambda>b m. m(b_id b \<mapsto> b)) bands Map.empty"

definition mapGet :: "(string \<rightharpoonup> 'a) \<Rightarrow> string option \<Rightarrow> 'a option" where
  "mapGet m k = (case k of None \<Rightarrow> None | Some i \<Rightarrow> m i)"

text \<open>
  \<^verbatim>\<open>resolveUnitsAndPrices(product)\<close>, lines 160 to 170; the \<^verbatim>\<open>bandById\<close> map it
  closes over is its first argument here.
\<close>

definition resolveUnitsAndPrices :: "(string \<rightharpoonup> band) \<Rightarrow> product \<Rightarrow> units_and_prices" where
  "resolveUnitsAndPrices bandLookup product =
     (case (p_pricesPence product, p_units product) of
        (Some pp, Some us) \<Rightarrow> \<lparr> units = us, pricesPence = pp \<rparr>
      | _ \<Rightarrow>
          (case mapGet bandLookup (p_bandId product) of
             None \<Rightarrow> \<lparr> units = [''One''], pricesPence = [''One'' \<mapsto> 0] \<rparr>
           | Some band \<Rightarrow> \<lparr> units = b_units band, pricesPence = b_pricesPence band \<rparr>))"

text \<open>The price edits of the admin screen, lines 279 to 296.\<close>

definition updateBandPrice :: "string \<Rightarrow> string \<Rightarrow> int \<Rightarrow> band list \<Rightarrow> band list" where
  "updateBandPrice bandId unit newPence bands =
     map (\<lambda>b. if b_id b = bandId then b\<lparr> b_pricesPence := (b_pricesPence b)(unit \<mapsto> newPence) \<rparr>
               else b) bands"

definition updateOverridePrice :: "string \<Rightarrow> string \<Rightarrow> int \<Rightarrow> product list \<Rightarrow> product list" where
  "updateOverridePrice productId unit newPence products =
     map (\<lambda>p. if p_id p \<noteq> productId then p
               else p\<lparr> p_pricesPence :=
                        Some ((case p_pricesPence p of None \<Rightarrow> Map.empty | Some pp \<Rightarrow> pp)
                              (unit \<mapsto> newPence)) \<rparr>) products"

section \<open>The basket\<close>

text \<open>
  A basket line, as the comment of line 103 lists it. The basket is the list of lines
  held in the component's state; each operation is a function from the basket it sees to
  the basket it sets. The key that \<^verbatim>\<open>uid()\<close> draws at random is an argument.
\<close>

record line =
  l_key :: string
  l_productId :: string
  l_label :: string
  l_unit :: string
  l_pricePence :: int
  l_qty :: int

text \<open>\<^verbatim>\<open>Array.prototype.findIndex\<close>: the first index whose element passes, or \<open>-1\<close>.\<close>

fun findIndexFrom :: "int \<Rightarrow> ('a \<Rightarrow> bool) \<Rightarrow> 'a list \<Rightarrow> int" where
  "findIndexFrom i P [] = - 1"
| "findIndexFrom i P (x # xs) = (if P x then i else findIndexFrom (i + 1) P xs)"

definition findIndex :: "('a \<Rightarrow> bool) \<Rightarrow> 'a list \<Rightarrow> int" where
  "findIndex P xs = findIndexFrom 0 P xs"

text \<open>\<^verbatim>\<open>Array.prototype.map\<close> with a callback that takes the element and its index.\<close>

fun mapFrom :: "int \<Rightarrow> ('a \<Rightarrow> int \<Rightarrow> 'b) \<Rightarrow> 'a list \<Rightarrow> 'b list" where
  "mapFrom i f [] = []"
| "mapFrom i f (x # xs) = f x i # mapFrom (i + 1) f xs"

definition mapIndexed :: "('a \<Rightarrow> int \<Rightarrow> 'b) \<Rightarrow> 'a list \<Rightarrow> 'b list" where
  "mapIndexed f xs = mapFrom 0 f xs"

text \<open>
  \<^verbatim>\<open>addToBasket(product, unit)\<close>, lines 192 to 220.
  \<^verbatim>\<open>pricesPence[unit] ?? 0\<close> is 0 for a unit that has no price.
\<close>

definition addToBasket ::
  "(string \<rightharpoonup> band) \<Rightarrow> string \<Rightarrow> line list \<Rightarrow> product \<Rightarrow> string \<Rightarrow> line list" where
  "addToBasket bandLookup uid basket product unit =
     (let pricePence = (case pricesPence (resolveUnitsAndPrices bandLookup product) unit of
                          None \<Rightarrow> 0 | Some v \<Rightarrow> v);
          label = (if unit = ''One'' then p_name product
                   else p_name product @ '' ('' @ unit @ '')'');
          existingIndex = findIndex (\<lambda>l. l_productId l = p_id product \<and> l_unit l = unit
                                          \<and> l_pricePence l = pricePence) basket
      in if existingIndex \<ge> 0
         then mapIndexed (\<lambda>l i. if i = existingIndex then l\<lparr> l_qty := l_qty l + 1 \<rparr> else l) basket
         else basket @ [\<lparr> l_key = uid, l_productId = p_id product, l_label = label,
                          l_unit = unit, l_pricePence = pricePence, l_qty = 1 \<rparr>])"

text \<open>\<^verbatim>\<open>incQty(key)\<close>, \<^verbatim>\<open>decQty(key)\<close> and \<^verbatim>\<open>removeLine(key)\<close>, lines 222 to 236.\<close>

definition incQty :: "string \<Rightarrow> line list \<Rightarrow> line list" where
  "incQty key b = map (\<lambda>l. if l_key l = key then l\<lparr> l_qty := l_qty l + 1 \<rparr> else l) b"

definition decQty :: "string \<Rightarrow> line list \<Rightarrow> line list" where
  "decQty key b =
     filter (\<lambda>l. l_qty l > 0)
       (map (\<lambda>l. if l_key l = key then l\<lparr> l_qty := l_qty l - 1 \<rparr> else l) b)"

definition removeLine :: "string \<Rightarrow> line list \<Rightarrow> line list" where
  "removeLine key b = filter (\<lambda>l. l_key l \<noteq> key) b"

text \<open>
  The baskets the component can hold: it starts empty (\<^verbatim>\<open>useState([])\<close>, line 103)
  and changes through the four operations only (\<^verbatim>\<open>undoLastAdd\<close> is a \<open>decQty\<close>,
  \<^verbatim>\<open>clearSale\<close> starts again from the empty basket).
\<close>

inductive basketReachable :: "line list \<Rightarrow> bool" where
  start: "basketReachable []"
| add: "basketReachable b \<Longrightarrow> basketReachable (addToBasket bandLookup uid b product unit)"
| inc: "basketReachable b \<Longrightarrow> basketReachable (incQty key b)"
| dec: "basketReachable b \<Longrightarrow> basketReachable (decQty key b)"
| remove: "basketReachable b \<Longrightarrow> basketReachable (removeLine key b)"

section \<open>Notions used in the statements\<close>

text \<open>
  The spec's reading of the filter and of a candidate total, for comparison with the
  code: a well-formed bundle has the tag \<^verbatim>\<open>"bundle"\<close>, a trigger quantity that is a
  finite number greater than 0 and a bundle price that is a finite number at least 0;
  its candidate total is \<open>bundleCount \<times> bundlePrice + remainder \<times> unitPrice\<close> with
  \<open>bundleCount = floor (quantity / triggerQuantity)\<close> and
  \<open>remainder = quantity mod triggerQuantity\<close>.
\<close>

fun wellFormedBundle :: "deal_entry \<Rightarrow> bool" where
  "wellFormedBundle (Obj t (JNum (Fin a)) (JNum (Fin p))) = (t = JStr ''bundle'' \<and> 0 < a \<and> 0 \<le> p)"
| "wellFormedBundle d = False"

definition candidateTotal :: "int \<Rightarrow> int \<Rightarrow> int \<Rightarrow> int \<Rightarrow> int" where
  "candidateTotal unitPrice quantity triggerQuantity bundlePrice =
     (quantity div triggerQuantity) * bundlePrice + (quantity mod triggerQuantity) * unitPrice"

text \<open>
  An entry whose \<^verbatim>\<open>qty\<close> and \<^verbatim>\<open>pricePence\<close> are of type number whenever its tag
  is \<^verbatim>\<open>"bundle"\<close>.
\<close>

fun numberFields :: "deal_entry \<Rightarrow> bool" where
  "numberFields (Obj t (JNum x) (JNum y)) = True"
| "numberFields (Obj t dq dp) = (t \<noteq> JStr ''bundle'')"
| "numberFields d = True"

text \<open>
  The triple that keys a basket line, and the unit price \<open>addToBasket\<close> resolves for a
  product and a unit (\<^verbatim>\<open>pricesPence[unit] ?? 0\<close>).
\<close>

definition lineKey :: "line \<Rightarrow> string \<times> string \<times> int" where
  "lineKey l = (l_productId l, l_unit l, l_pricePence l)"

definition resolvedPrice :: "(string \<rightharpoonup> band) \<Rightarrow> product \<Rightarrow> string \<Rightarrow> int" where
  "resolvedPrice bandLookup product unit =
     (case pricesPence (resolveUnitsAndPrices bandLookup product) unit of None \<Rightarrow> 0 | Some v \<Rightarrow> v)"

section \<open>Entries of the default catalog\<close>

text \<open>From \<^verbatim>\<open>DEFAULT_STATE\<close>, lines 64, 71 and 76 of \<^verbatim>\<open>src/App.jsx\<close>.\<close>

definition band_premium :: band where
  "band_premium = \<lparr> b_id = ''band-premium'', b_name = ''Premium Spirits'',
                     b_units = [''Single'', ''Double''],
                     b_pricesPence = [''Single'' \<mapsto> 450, ''Double'' \<mapsto> 850] \<rparr>"

definition p_gin1 :: product where
  "p_gin1 = \<lparr> p_id = ''p-gin1'', p_name = ''Tanqueray'', p_category = ''Spirits'',
               p_bandId = Some ''band-premium'', p_units = None, p_pricesPence = None,
               p_deals = DAbsent \<rparr>"

definition p_guin :: product where
  "p_guin = \<lparr> p_id = ''p-guin'', p_name = ''Guinness'', p_category = ''Draft'',
               p_bandId = None, p_units = Some [''Half'', ''Pint''],
               p_pricesPence = Some [''Half'' \<mapsto> 340, ''Pint'' \<mapsto> 660], p_deals = DAbsent \<rparr>"

section \<open>Properties of the deal pricing engine\<close>

subsection \<open>The filter and the loop\<close>

lemma keepDeal_iff:
  "keepDeal d \<longleftrightarrow>
     (\<exists>a p. d = Obj (JStr ''bundle'') (JNum (Fin a)) (JNum (Fin p)) \<and> 0 < a \<and> 0 \<le> p)"
  by (cases d) (auto simp: js_gt_def js_ge_def js_le_def elim!: Number_isFinite.elims)

lemma dealCandidate_total:
  "0 \<le> q \<Longrightarrow> 0 < a \<Longrightarrow>
   totalPence (dealCandidate u q (JNum (Fin a)) (JNum (Fin p))) = Fin (candidateTotal u q a p)"
  by (simp add: dealCandidate_def candidateTotal_def Let_def sgn_if)

lemma dealCandidate_finite:
  "a \<noteq> 0 \<Longrightarrow> \<exists>t. totalPence (dealCandidate u q (JNum (Fin a)) (JNum (Fin p))) = Fin t"
  by (simp add: dealCandidate_def Let_def)

lemma candidateTotal_nonneg:
  "0 \<le> u \<Longrightarrow> 0 \<le> q \<Longrightarrow> 0 < a \<Longrightarrow> 0 \<le> p \<Longrightarrow> 0 \<le> candidateTotal u q a p"
  by (simp add: candidateTotal_def pos_imp_zdiv_nonneg_iff)


text \<open>
  On deals that passed the filter the loop never throws, and its result is a finite total
  no larger than the one it started from.
\<close>

lemma forDeals_kept:
  "\<forall>d \<in> set fs. keepDeal d \<Longrightarrow> totalPence best = Fin b \<Longrightarrow>
   \<exists>r t. forDeals u q best fs = Inr r \<and> totalPence r = Fin t \<and> t \<le> b"
proof (induction fs arbitrary: best b)
  case Nil
  then show ?case by simp
next
  case (Cons d fs)
  from Cons.prems(1) obtain a p where d: "d = Obj (JStr ''bundle'') (JNum (Fin a)) (JNum (Fin p))"
    and a: "0 < a" by (auto simp: keepDeal_iff)
  from a obtain t where t: "totalPence (dealCandidate u q (JNum (Fin a)) (JNum (Fin p))) = Fin t"
    using dealCandidate_finite [of a u q p] by auto
  show ?case
  proof (cases "t < b")
    case True
    with Cons.IH [of "dealCandidate u q (JNum (Fin a)) (JNum (Fin p))" t] Cons.prems t d
    show ?thesis by (fastforce simp: Let_def)
  next
    case False
    with Cons.IH [of best b] Cons.prems t d
    show ?thesis by (fastforce simp: Let_def)
  qed
qed

lemma forDeals_nonneg:
  "\<forall>d \<in> set fs. keepDeal d \<Longrightarrow> 0 \<le> u \<Longrightarrow> 0 \<le> q \<Longrightarrow> totalPence best = Fin b \<Longrightarrow> 0 \<le> b \<Longrightarrow>
   \<exists>r t. forDeals u q best fs = Inr r \<and> totalPence r = Fin t \<and> 0 \<le> t"
proof (induction fs arbitrary: best b)
  case Nil
  then show ?case by simp
next
  case (Cons d fs)
  from Cons.prems(1) obtain a p where d: "d = Obj (JStr ''bundle'') (JNum (Fin a)) (JNum (Fin p))"
    and a: "0 < a" and p: "0 \<le> p" by (auto simp: keepDeal_iff)
  let ?c = "dealCandidate u q (JNum (Fin a)) (JNum (Fin p))"
  have t: "totalPence ?c = Fin (candidateTotal u q a p)"
    using dealCandidate_total Cons.prems a by simp
  have nn: "0 \<le> candidateTotal u q a p"
    using candidateTotal_nonneg Cons.prems a p by simp
  show ?case
  proof (cases "candidateTotal u q a p < b")
    case True
    with Cons.IH [of ?c "candidateTotal u q a p"] Cons.prems t d nn
    show ?thesis by (simp add: Let_def)
  next
    case False
    with Cons.IH [of best b] Cons.prems t d
    show ?thesis by (simp add: Let_def)
  qed
qed







subsection \<open>Claims\<close>

text \<open>
  C2. For every unit price, every integer quantity and every deals list (or no deals
  at all), \<open>bestLineTotalWithDeals\<close> returns a total, and that total is at most the
  no-deal baseline, unit price times quantity. The claim asks this for unit prices that
  are at least 0; it holds for negative ones too.
\<close>

theorem total_at_most_baseline:
  "deals = DAbsent \<or> deals = DArray ds \<Longrightarrow>
   \<exists>r t. bestLineTotalWithDeals unitPricePence qty deals = Inr r
         \<and> totalPence r = Fin t \<and> t \<le> unitPricePence * qty"
proof -
  have kept: "\<forall>d \<in> set (filter keepDeal ds). keepDeal d" by simp
  have best: "totalPence (noDeal unitPricePence qty) = Fin (unitPricePence * qty)"
    by (simp add: noDeal_def)
  assume "deals = DAbsent \<or> deals = DArray ds"
  then show ?thesis
    using forDeals_kept [OF kept best, of unitPricePence qty] best
    by (auto simp: bestLineTotalWithDeals_def Let_def)
qed

theorem total_at_most_baseline_witness:
  "bestLineTotalWithDeals 290 4 (DArray [Obj (JStr ''bundle'') (JNum (Fin 3)) (JNum (Fin 700))])
     = Inr \<lparr> totalPence = Fin 990,
             dealNote = Some (''3 for '' @ pound @ ''7.00 '' @ times_sign @ '' 1'') \<rparr>
   \<and> (\<exists>r t. bestLineTotalWithDeals 290 4
               (DArray [Obj (JStr ''bundle'') (JNum (Fin 3)) (JNum (Fin 700))]) = Inr r
           \<and> totalPence r = Fin t \<and> t \<le> 290 * 4)"
proof
  show "bestLineTotalWithDeals 290 4 (DArray [Obj (JStr ''bundle'') (JNum (Fin 3)) (JNum (Fin 700))])
     = Inr \<lparr> totalPence = Fin 990,
             dealNote = Some (''3 for '' @ pound @ ''7.00 '' @ times_sign @ '' 1'') \<rparr>"
    by code_simp
  show "\<exists>r t. bestLineTotalWithDeals 290 4
               (DArray [Obj (JStr ''bundle'') (JNum (Fin 3)) (JNum (Fin 700))]) = Inr r
           \<and> totalPence r = Fin t \<and> t \<le> 290 * 4"
    using total_at_most_baseline
      [of "DArray [Obj (JStr ''bundle'') (JNum (Fin 3)) (JNum (Fin 700))]"
          "[Obj (JStr ''bundle'') (JNum (Fin 3)) (JNum (Fin 700))]" 290 4]
    by simp
qed




text \<open>
  C4. Whenever the quantity is at most 0, or the deals are absent, or the deals list is
  empty, \<open>bestLineTotalWithDeals\<close> returns exactly unit price times quantity and no deal
  note, for every unit price.
\<close>

theorem no_deal_baseline:
  "qty \<le> 0 \<or> deals = DAbsent \<or> deals = DArray [] \<Longrightarrow>
   bestLineTotalWithDeals unitPricePence qty deals
     = Inr \<lparr> totalPence = Fin (unitPricePence * qty), dealNote = None \<rparr>"
  by (auto simp: bestLineTotalWithDeals_def noDeal_def)

theorem no_deal_baseline_witness:
  "((0::int) \<le> 0 \<or> DArray [Obj (JStr ''bundle'') (JNum (Fin 3)) (JNum (Fin 700))] = DAbsent
      \<or> DArray [Obj (JStr ''bundle'') (JNum (Fin 3)) (JNum (Fin 700))] = DArray [])
   \<and> bestLineTotalWithDeals 290 0 (DArray [Obj (JStr ''bundle'') (JNum (Fin 3)) (JNum (Fin 700))])
       = Inr \<lparr> totalPence = Fin 0, dealNote = None \<rparr>
   \<and> bestLineTotalWithDeals 290 4 DAbsent = Inr \<lparr> totalPence = Fin 1160, dealNote = None \<rparr>
   \<and> bestLineTotalWithDeals 290 4 (DArray []) = Inr \<lparr> totalPence = Fin 1160, dealNote = None \<rparr>"
  using no_deal_baseline [of 0 "DArray [Obj (JStr ''bundle'') (JNum (Fin 3)) (JNum (Fin 700))]" 290]
    no_deal_baseline [of 4 DAbsent 290] no_deal_baseline [of 4 "DArray []" 290]
  by simp

text \<open>
  C7, as amended. \<open>bestLineTotalWithDeals\<close> never raises when \<^verbatim>\<open>deals\<close> is absent or
  an array, whatever the entries of the array are, and whenever unit price and quantity
  are at least 0 the returned total is a non-negative number.
\<close>

theorem never_raises_on_absent_or_array:
  "deals = DAbsent \<or> deals = DArray ds \<Longrightarrow>
   \<exists>r. bestLineTotalWithDeals unitPricePence qty deals = Inr r
       \<and> (0 \<le> unitPricePence \<longrightarrow> 0 \<le> qty \<longrightarrow> js_ge (totalPence r) (Fin 0))"
proof -
  assume d: "deals = DAbsent \<or> deals = DArray ds"
  let ?base = "noDeal unitPricePence qty"
  have kept: "\<forall>d \<in> set (filter keepDeal ds). keepDeal d" by simp
  have best: "totalPence ?base = Fin (unitPricePence * qty)"
    by (simp add: noDeal_def)
  have base: "js_ge (totalPence ?base) (Fin 0)" if "0 \<le> unitPricePence" "0 \<le> qty"
    using that by (simp add: noDeal_def js_ge_def js_le_def not_less)
  obtain r where r: "forDeals unitPricePence qty ?base (filter keepDeal ds) = Inr r"
    using forDeals_kept [OF kept best, of unitPricePence qty] by auto
  have loop: "js_ge (totalPence r) (Fin 0)" if "0 \<le> unitPricePence" "0 \<le> qty"
  proof -
    from that have "0 \<le> unitPricePence * qty" by simp
    from forDeals_nonneg [OF kept that best this] r
    show ?thesis by (auto simp: js_ge_def js_le_def)
  qed
  have "bestLineTotalWithDeals unitPricePence qty deals = Inr ?base
        \<or> bestLineTotalWithDeals unitPricePence qty deals = Inr r"
    using d r by (auto simp: bestLineTotalWithDeals_def Let_def)
  then show ?thesis using base loop by auto
qed

theorem never_raises_on_absent_or_array_witness:
  "bestLineTotalWithDeals 290 4
     (DArray [Nullish, Obj (JStr ''bundle'') (JNum (Fin (- 3))) (JNum (Fin 700)),
              Obj (JStr ''bundle'') (JNum (Fin 3)) (JStr ''abc''),
              Obj (JStr ''bundle'') (JNum (Fin 3)) (JNum (Fin 700))])
     = Inr \<lparr> totalPence = Fin 990,
             dealNote = Some (''3 for '' @ pound @ ''7.00 '' @ times_sign @ '' 1'') \<rparr>
   \<and> (\<exists>r. bestLineTotalWithDeals 290 4
     (DArray [Nullish, Obj (JStr ''bundle'') (JNum (Fin (- 3))) (JNum (Fin 700)),
              Obj (JStr ''bundle'') (JNum (Fin 3)) (JStr ''abc''),
              Obj (JStr ''bundle'') (JNum (Fin 3)) (JNum (Fin 700))]) = Inr r
          \<and> js_ge (totalPence r) (Fin 0))"
proof -
  let ?ds = "[Nullish, Obj (JStr ''bundle'') (JNum (Fin (- 3))) (JNum (Fin 700)),
              Obj (JStr ''bundle'') (JNum (Fin 3)) (JStr ''abc''),
              Obj (JStr ''bundle'') (JNum (Fin 3)) (JNum (Fin 700))]"
  have run: "bestLineTotalWithDeals 290 4 (DArray ?ds)
     = Inr \<lparr> totalPence = Fin 990,
             dealNote = Some (''3 for '' @ pound @ ''7.00 '' @ times_sign @ '' 1'') \<rparr>"
    by code_simp
  have arr: "DArray ?ds = DAbsent \<or> DArray ?ds = DArray ?ds" by simp
  from never_raises_on_absent_or_array [OF arr, of 290 4]
  have "\<exists>r. bestLineTotalWithDeals 290 4 (DArray ?ds) = Inr r \<and> js_ge (totalPence r) (Fin 0)"
    by simp
  with run show ?thesis by simp
qed

text \<open>
  C7 as stated fails: with \<^verbatim>\<open>deals\<close> an object that is not an array (here one with
  no \<^verbatim>\<open>length\<close>) and a positive quantity, \<^verbatim>\<open>deals.filter\<close> is not a function.
\<close>

theorem raises_on_non_array_counterexample:
  "bestLineTotalWithDeals 290 3 (DNonArray JUndefined) = Inl TypeError"
  by (simp add: bestLineTotalWithDeals_def)

section \<open>The filter in the two copies of the engine\<close>

text \<open>
  In \<^verbatim>\<open>src/App.jsx\<close> the filter keeps exactly the well-formed bundles, the result
  depends on them alone, and no entry makes the function raise.
\<close>

lemma keepDeal_wellFormedBundle: "keepDeal d = wellFormedBundle d"
  by (cases d rule: wellFormedBundle.cases) (auto simp: js_gt_def js_ge_def js_le_def)

lemma only_well_formed_considered:
  "filter keepDeal ds = filter wellFormedBundle ds
   \<and> bestLineTotalWithDeals u q (DArray ds)
       = bestLineTotalWithDeals u q (DArray (filter wellFormedBundle ds))
   \<and> (\<exists>r. bestLineTotalWithDeals u q (DArray ds) = Inr r)"
proof -
  have eq: "keepDeal = wellFormedBundle" by (rule ext) (rule keepDeal_wellFormedBundle)
  have kept: "\<forall>d \<in> set (filter keepDeal ds). keepDeal d" by simp
  have best: "totalPence (noDeal u q) = Fin (u * q)" by (simp add: noDeal_def)
  have "\<exists>r. forDeals u q (noDeal u q) (filter keepDeal ds) = Inr r"
    using forDeals_kept [OF kept best, of u q] by auto
  then show ?thesis
    unfolding eq [symmetric] by (auto simp: bestLineTotalWithDeals_def Let_def)
qed

lemma keepDeal_imp_part000: "keepDeal d \<Longrightarrow> keepDeal_part000 d"
  by (cases d) auto

text \<open>
  What the earlier copy keeps beyond that, among entries with numbers in both fields, is
  an infinite quantity or an infinite price; such a deal never beats the current best.
\<close>

lemma part000_extra_no_effect:
  assumes k: "keepDeal_part000 (Obj t (JNum x) (JNum y))"
    and nk: "\<not> keepDeal (Obj t (JNum x) (JNum y))"
    and q: "0 < q" and b: "b \<le> u * q"
  shows "\<not> js_lt (totalPence (dealCandidate u q (JNum x) (JNum y))) (Fin b)"
proof (cases x)
  case (Fin a)
  with k have a: "0 < a" by (simp add: js_gt_def)
  with q have d: "0 \<le> q div a" by (simp add: pos_imp_zdiv_nonneg_iff)
  from Fin k nk a have y: "y = PosInf"
    by (cases y) (auto simp: js_gt_def js_ge_def js_le_def)
  show ?thesis using Fin y a d
    by (auto simp: dealCandidate_def Let_def inf_of_def sgn_if)
next
  case PosInf
  show ?thesis
  proof (cases y)
    case (Fin p)
    with PosInf b show ?thesis by (simp add: dealCandidate_def Let_def mult.commute)
  qed (simp_all add: PosInf dealCandidate_def Let_def)
next
  case NegInf
  with k show ?thesis by (simp add: js_gt_def)
next
  case NaN
  with k show ?thesis by (simp add: js_gt_def)
qed

lemma forDeals_filters_agree:
  "\<forall>d \<in> set ds. numberFields d \<Longrightarrow> 0 < q \<Longrightarrow> totalPence best = Fin b \<Longrightarrow> b \<le> u * q \<Longrightarrow>
   forDeals u q best (filter keepDeal_part000 ds) = forDeals u q best (filter keepDeal ds)"
proof (induction ds arbitrary: best b)
  case Nil
  then show ?case by simp
next
  case (Cons d ds)
  have nf: "\<forall>d \<in> set ds. numberFields d" using Cons.prems(1) by simp
  show ?case
  proof (cases "keepDeal d")
    case True
    then obtain a p where d: "d = Obj (JStr ''bundle'') (JNum (Fin a)) (JNum (Fin p))"
      and a: "0 < a" by (auto simp: keepDeal_iff)
    let ?c = "dealCandidate u q (JNum (Fin a)) (JNum (Fin p))"
    from a obtain t where t: "totalPence ?c = Fin t"
      using dealCandidate_finite [of a u q p] by auto
    let ?b = "if js_lt (totalPence ?c) (totalPence best) then ?c else best"
    obtain b' where b': "totalPence ?b = Fin b'" "b' \<le> u * q"
      using t Cons.prems(3,4) by (cases "t < b") auto
    from Cons.IH [OF nf Cons.prems(2) b'] True keepDeal_imp_part000 [OF True] d
    show ?thesis by (simp add: Let_def)
  next
    case False
    show ?thesis
    proof (cases "keepDeal_part000 d")
      case True
      with Cons.prems(1) obtain t x y where d: "d = Obj t (JNum x) (JNum y)"
        by (cases d rule: numberFields.cases) auto
      have "\<not> js_lt (totalPence (dealCandidate u q (JNum x) (JNum y))) (totalPence best)"
        using part000_extra_no_effect [of t x y q b u] True False Cons.prems d by simp
      with Cons.IH [OF nf Cons.prems(2,3,4)] True False d
      show ?thesis by (simp add: Let_def)
    next
      case no: False
      with Cons.IH [OF nf Cons.prems(2,3,4)] False show ?thesis by simp
    qed
  qed
qed

lemma implementations_agree_on_number_fields:
  assumes "\<forall>d \<in> set ds. numberFields d"
  shows "bestLineTotalWithDeals_part000 u q (DArray ds) = bestLineTotalWithDeals u q (DArray ds)"
proof (cases "0 < q")
  case True
  have best: "totalPence (noDeal u q) = Fin (u * q)" by (simp add: noDeal_def)
  from forDeals_filters_agree [OF assms True best]
  have eq: "forDeals u q (noDeal u q) (filter keepDeal_part000 ds)
            = forDeals u q (noDeal u q) (filter keepDeal ds)" by simp
  have sub: "filter keepDeal_part000 ds = [] \<Longrightarrow> filter keepDeal ds = []"
    using keepDeal_imp_part000 by (auto simp: filter_empty_conv)
  show ?thesis
    using eq sub
    by (cases "filter keepDeal ds = []"; cases "filter keepDeal_part000 ds = []")
       (auto simp: bestLineTotalWithDeals_part000_def bestLineTotalWithDeals_def Let_def)
next
  case False
  then show ?thesis
    by (simp add: bestLineTotalWithDeals_part000_def bestLineTotalWithDeals_def)
qed

lemma implementations_agree_without_array:
  "deals = DAbsent \<or> deals = DNonArray len \<Longrightarrow>
   bestLineTotalWithDeals_part000 u q deals = bestLineTotalWithDeals u q deals"
  by (auto simp: bestLineTotalWithDeals_part000_def bestLineTotalWithDeals_def)

text \<open>
  C1 says that exactly the entries tagged \<^verbatim>\<open>"bundle"\<close> whose trigger quantity is a
  finite number greater than 0 and whose bundle price is a finite number at least 0 are
  considered, and that every other entry, a non-numeric quantity included, is dropped.
  The filter of \<^verbatim>\<open>src/App.jsx\<close> does so (\<open>only_well_formed_considered\<close>). The filter
  of the earlier copy does not: it keeps the entry whose quantity is the string
  \<^verbatim>\<open>"3"\<close>, which is not well formed, and the loop applies it.
\<close>

theorem part000_keeps_string_quantity:
  "\<not> wellFormedBundle (Obj (JStr ''bundle'') (JStr ''3'') (JNum (Fin 700)))
   \<and> \<not> keepDeal (Obj (JStr ''bundle'') (JStr ''3'') (JNum (Fin 700)))
   \<and> keepDeal_part000 (Obj (JStr ''bundle'') (JStr ''3'') (JNum (Fin 700)))
   \<and> bestLineTotalWithDeals_part000 290 3
       (DArray [Obj (JStr ''bundle'') (JStr ''3'') (JNum (Fin 700))])
     = Inr \<lparr> totalPence = Fin 700,
             dealNote = Some (''3 for '' @ pound @ ''7.00 '' @ times_sign @ '' 1'') \<rparr>"
  by code_simp

text \<open>
  C8 says that the two copies of \<open>bestLineTotalWithDeals\<close> return the same total and
  the same note on every input. They do whenever every bundle entry has numbers in both
  fields (\<open>implementations_agree_on_number_fields\<close>), and on every \<^verbatim>\<open>deals\<close> that
  is not an array. They differ on a bundle whose price is the string \<^verbatim>\<open>"700"\<close>:
  \<^verbatim>\<open>src/App.jsx\<close> drops it, the earlier copy applies it.
\<close>

theorem implementations_differ_on_string_price:
  "bestLineTotalWithDeals 290 3 (DArray [Obj (JStr ''bundle'') (JNum (Fin 3)) (JStr ''700'')])
     = Inr \<lparr> totalPence = Fin 870, dealNote = None \<rparr>
   \<and> bestLineTotalWithDeals_part000 290 3
       (DArray [Obj (JStr ''bundle'') (JNum (Fin 3)) (JStr ''700'')])
     = Inr \<lparr> totalPence = Fin 700,
             dealNote = Some (''3 for '' @ pound @ ''7.00 '' @ times_sign @ '' 1'') \<rparr>"
  by code_simp

section \<open>Properties of the catalog resolver\<close>

text \<open>
  C5. A product that carries a unit list and a price mapping of its own resolves to
  exactly that list and that mapping, whatever its band reference is and whatever the
  band lookup contains. This holds for a non-empty list and mapping, as the claim asks,
  and for empty ones as well.
\<close>

theorem override_takes_precedence:
  "p_units product = Some us \<Longrightarrow> p_pricesPence product = Some pp \<Longrightarrow>
   resolveUnitsAndPrices bandLookup (product\<lparr> p_bandId := ref \<rparr>) = \<lparr> units = us, pricesPence = pp \<rparr>"
  by (simp add: resolveUnitsAndPrices_def)

theorem override_takes_precedence_witness:
  "resolveUnitsAndPrices (bandById [band_premium]) (p_guin\<lparr> p_bandId := Some ''band-premium'' \<rparr>)
     = \<lparr> units = [''Half'', ''Pint''], pricesPence = [''Half'' \<mapsto> 340, ''Pint'' \<mapsto> 660] \<rparr>
   \<and> [''Half'', ''Pint''] \<noteq> [] \<and> dom [''Half'' \<mapsto> 340 :: int, ''Pint'' \<mapsto> 660] \<noteq> {}
   \<and> mapGet (bandById [band_premium]) (Some ''band-premium'') = Some band_premium"
proof -
  have u: "p_units p_guin = Some [''Half'', ''Pint'']" by (simp add: p_guin_def)
  have p: "p_pricesPence p_guin = Some [''Half'' \<mapsto> 340, ''Pint'' \<mapsto> 660]" by (simp add: p_guin_def)
  have b: "mapGet (bandById [band_premium]) (Some ''band-premium'') = Some band_premium"
    by (simp add: mapGet_def bandById_def band_premium_def)
  from override_takes_precedence [OF u p, of "bandById [band_premium]" "Some ''band-premium''"] b
  show ?thesis by simp
qed

text \<open>
  C6. A product that lacks a unit list or a price mapping of its own, and whose band
  reference is missing or unknown to the band lookup, resolves to the single unit
  \<^verbatim>\<open>"One"\<close> priced at 0. The function has no failing branch.
\<close>

theorem dangling_band_falls_back:
  "p_units product = None \<or> p_pricesPence product = None \<Longrightarrow>
   mapGet bandLookup (p_bandId product) = None \<Longrightarrow>
   resolveUnitsAndPrices bandLookup product = \<lparr> units = [''One''], pricesPence = [''One'' \<mapsto> 0] \<rparr>"
  by (auto simp: resolveUnitsAndPrices_def split: option.splits)

theorem dangling_band_falls_back_witness:
  "resolveUnitsAndPrices (bandById [band_premium]) (p_gin1\<lparr> p_bandId := Some ''band-gone'' \<rparr>)
     = \<lparr> units = [''One''], pricesPence = [''One'' \<mapsto> 0] \<rparr>
   \<and> resolveUnitsAndPrices (bandById [band_premium]) p_gin1
     = \<lparr> units = [''Single'', ''Double''], pricesPence = [''Single'' \<mapsto> 450, ''Double'' \<mapsto> 850] \<rparr>"
proof -
  have u: "p_units (p_gin1\<lparr> p_bandId := Some ''band-gone'' \<rparr>) = None
           \<or> p_pricesPence (p_gin1\<lparr> p_bandId := Some ''band-gone'' \<rparr>) = None"
    by (simp add: p_gin1_def)
  have b: "mapGet (bandById [band_premium]) (p_bandId (p_gin1\<lparr> p_bandId := Some ''band-gone'' \<rparr>)) = None"
    by (simp add: mapGet_def bandById_def band_premium_def)
  have r: "resolveUnitsAndPrices (bandById [band_premium]) p_gin1
     = \<lparr> units = [''Single'', ''Double''], pricesPence = [''Single'' \<mapsto> 450, ''Double'' \<mapsto> 850] \<rparr>"
    by (simp add: resolveUnitsAndPrices_def mapGet_def bandById_def band_premium_def p_gin1_def)
  from dangling_band_falls_back [OF u b] r show ?thesis by simp
qed

section \<open>Properties of the basket\<close>

lemma findIndexFrom_eq:
  "findIndexFrom i P xs =
     (if \<exists>x \<in> set xs. P x then i + int (length (takeWhile (\<lambda>x. \<not> P x) xs)) else - 1)"
  by (induction xs arbitrary: i) auto

lemma mapFrom_before:
  "t < i \<Longrightarrow> mapFrom i (\<lambda>l j. if j = t then g l else l) xs = xs"
  by (induction xs arbitrary: i) auto

lemma mapFrom_at:
  "mapFrom i (\<lambda>l j. if j = i + int n then g l else l) xs
     = (if n < length xs then xs[n := g (xs ! n)] else xs)"
proof (induction xs arbitrary: i n)
  case Nil
  then show ?case by simp
next
  case (Cons x xs)
  show ?case
  proof (cases n)
    case 0
    then show ?thesis using mapFrom_before [of i "i + 1" g xs] by simp
  next
    case (Suc m)
    then show ?thesis using Cons.IH [of "i + 1" m] by (simp add: algebra_simps)
  qed
qed

lemma length_takeWhile_lt:
  "\<exists>x \<in> set xs. \<not> P x \<Longrightarrow> length (takeWhile P xs) < length xs"
  by (induction xs) auto

lemma addToBasket_existing:
  assumes "\<exists>l \<in> set basket. lineKey l = (p_id product, unit, resolvedPrice bandLookup product unit)"
  defines "n \<equiv> length (takeWhile (\<lambda>l. lineKey l \<noteq> (p_id product, unit, resolvedPrice bandLookup product unit)) basket)"
  shows "n < length basket"
    and "lineKey (basket ! n) = (p_id product, unit, resolvedPrice bandLookup product unit)"
    and "\<forall>j < n. lineKey (basket ! j) \<noteq> (p_id product, unit, resolvedPrice bandLookup product unit)"
    and "addToBasket bandLookup uid basket product unit
           = basket[n := (basket ! n)\<lparr> l_qty := l_qty (basket ! n) + 1 \<rparr>]"
proof -
  let ?k = "(p_id product, unit, resolvedPrice bandLookup product unit)"
  let ?P = "\<lambda>l. l_productId l = p_id product \<and> l_unit l = unit
                  \<and> l_pricePence l = resolvedPrice bandLookup product unit"
  have P: "?P = (\<lambda>l. lineKey l = ?k)" by (auto simp: lineKey_def)
  show n: "n < length basket"
    unfolding n_def using assms(1) by (intro length_takeWhile_lt) simp
  show "lineKey (basket ! n) = ?k"
    unfolding n_def using nth_length_takeWhile [of "\<lambda>l. lineKey l \<noteq> ?k" basket] n [unfolded n_def]
    by simp
  show "\<forall>j < n. lineKey (basket ! j) \<noteq> ?k"
    unfolding n_def using nth_mem [of _ "takeWhile (\<lambda>l. lineKey l \<noteq> ?k) basket"]
    by (metis (mono_tags, lifting) set_takeWhileD takeWhile_nth)
  have idx: "findIndex ?P basket = int n"
    using assms(1) unfolding findIndex_def findIndexFrom_eq P n_def by auto
  show "addToBasket bandLookup uid basket product unit
           = basket[n := (basket ! n)\<lparr> l_qty := l_qty (basket ! n) + 1 \<rparr>]"
    using idx n mapFrom_at [of 0 n "\<lambda>l. l\<lparr> l_qty := l_qty l + 1 \<rparr>" basket]
    by (simp add: addToBasket_def resolvedPrice_def Let_def mapIndexed_def)
qed

lemma addToBasket_new:
  assumes "\<forall>l \<in> set basket. lineKey l \<noteq> (p_id product, unit, resolvedPrice bandLookup product unit)"
  shows "addToBasket bandLookup uid basket product unit
           = basket @ [\<lparr> l_key = uid, l_productId = p_id product,
                          l_label = (if unit = ''One'' then p_name product
                                     else p_name product @ '' ('' @ unit @ '')''),
                          l_unit = unit, l_pricePence = resolvedPrice bandLookup product unit, l_qty = 1 \<rparr>]"
proof -
  let ?k = "(p_id product, unit, resolvedPrice bandLookup product unit)"
  let ?P = "\<lambda>l. l_productId l = p_id product \<and> l_unit l = unit
                  \<and> l_pricePence l = resolvedPrice bandLookup product unit"
  have P: "?P = (\<lambda>l. lineKey l = ?k)" by (auto simp: lineKey_def)
  have idx: "findIndex ?P basket = - 1"
    using assms unfolding findIndex_def findIndexFrom_eq P by auto
  show ?thesis using idx by (simp add: addToBasket_def resolvedPrice_def Let_def)
qed

lemma lineKey_qty [simp]: "lineKey (l\<lparr> l_qty := q \<rparr>) = lineKey l"
  by (simp add: lineKey_def)

lemma map_lineKey_addToBasket:
  "map lineKey (addToBasket bandLookup uid basket product unit)
     = (if (p_id product, unit, resolvedPrice bandLookup product unit) \<in> lineKey ` set basket
        then map lineKey basket
        else map lineKey basket @ [(p_id product, unit, resolvedPrice bandLookup product unit)])"
proof (cases "(p_id product, unit, resolvedPrice bandLookup product unit) \<in> lineKey ` set basket")
  case True
  then have ex: "\<exists>l \<in> set basket. lineKey l = (p_id product, unit, resolvedPrice bandLookup product unit)"
    by auto
  show ?thesis
    using True addToBasket_existing(1,4) [OF ex]
    by (simp add: map_update list_update_same_conv)
next
  case False
  then have nex: "\<forall>l \<in> set basket. lineKey l \<noteq> (p_id product, unit, resolvedPrice bandLookup product unit)"
    by (metis imageI)
  show ?thesis using False addToBasket_new [OF nex, of uid] by (simp add: lineKey_def)
qed

text \<open>No reachable basket has two lines with the same triple.\<close>

lemma basketReachable_distinct:
  "basketReachable b \<Longrightarrow> distinct (map lineKey b)"
proof (induction rule: basketReachable.induct)
  case start
  show ?case by simp
next
  case (add b bandLookup uid product unit)
  then show ?case by (simp add: map_lineKey_addToBasket)
next
  case (inc b key)
  have "lineKey \<circ> (\<lambda>l. if l_key l = key then l\<lparr> l_qty := l_qty l + 1 \<rparr> else l) = lineKey"
    by (rule ext) simp
  then have "map lineKey (incQty key b) = map lineKey b"
    by (simp add: incQty_def)
  with inc show ?case by simp
next
  case (dec b key)
  have "lineKey \<circ> (\<lambda>l. if l_key l = key then l\<lparr> l_qty := l_qty l - 1 \<rparr> else l) = lineKey"
    by (rule ext) simp
  with dec have "distinct (map lineKey
      (map (\<lambda>l. if l_key l = key then l\<lparr> l_qty := l_qty l - 1 \<rparr> else l) b))"
    by simp
  then show ?case unfolding decQty_def by (rule distinct_map_filter)
next
  case (remove b key)
  from remove.IH show ?case unfolding removeLine_def by (rule distinct_map_filter)
qed

text \<open>
  A price edit makes the edited price the one that the next add resolves, for a product
  with prices of its own and for a product priced by its band.
\<close>

lemma override_edit_sets_price:
  "p_id p = productId \<Longrightarrow> p_units p = Some us \<Longrightarrow>
   resolvedPrice bandLookup (hd (updateOverridePrice productId unit newPence [p])) unit = newPence"
  by (simp add: updateOverridePrice_def resolvedPrice_def resolveUnitsAndPrices_def)

lemma band_edit_sets_price:
  "p_units p = None \<or> p_pricesPence p = None \<Longrightarrow> p_bandId p = Some bandId \<Longrightarrow>
   b_id band = bandId \<Longrightarrow>
   resolvedPrice (bandById (updateBandPrice bandId unit newPence [band])) p unit = newPence"
  by (auto simp: updateBandPrice_def resolvedPrice_def resolveUnitsAndPrices_def bandById_def
      mapGet_def split: option.splits)

text \<open>
  C9. When the basket has a line with the product identifier, the unit and the resolved
  unit price of the add, the first such line gets its quantity raised by 1 and nothing
  else changes; otherwise one line with quantity 1 is appended. So a basket with at most
  one line for each triple still has at most one after the add, every basket the
  component can reach has at most one after the add, and an add of the same product and
  unit at a different resolved price, as after a price edit, leaves two separate lines.
\<close>

theorem addToBasket_groups_by_triple:
  "((p_id product, unit, resolvedPrice bandLookup product unit) \<in> lineKey ` set basket \<longrightarrow>
      (\<exists>n < length basket.
          lineKey (basket ! n) = (p_id product, unit, resolvedPrice bandLookup product unit)
        \<and> (\<forall>j < n. lineKey (basket ! j) \<noteq> (p_id product, unit, resolvedPrice bandLookup product unit))
        \<and> addToBasket bandLookup uid basket product unit
            = basket[n := (basket ! n)\<lparr> l_qty := l_qty (basket ! n) + 1 \<rparr>]))
   \<and> ((p_id product, unit, resolvedPrice bandLookup product unit) \<notin> lineKey ` set basket \<longrightarrow>
      (\<exists>l. addToBasket bandLookup uid basket product unit = basket @ [l]
         \<and> lineKey l = (p_id product, unit, resolvedPrice bandLookup product unit)
         \<and> l_qty l = 1 \<and> l_key l = uid))
   \<and> (distinct (map lineKey basket) \<longrightarrow>
        distinct (map lineKey (addToBasket bandLookup uid basket product unit)))
   \<and> (basketReachable basket \<longrightarrow>
        distinct (map lineKey (addToBasket bandLookup uid basket product unit)))
   \<and> (\<forall>bandLookup' product' uid'.
         p_id product' = p_id product
         \<and> resolvedPrice bandLookup' product' unit \<noteq> resolvedPrice bandLookup product unit \<longrightarrow>
         (\<exists>i j. i \<noteq> j
            \<and> i < length (addToBasket bandLookup' uid'
                           (addToBasket bandLookup uid basket product unit) product' unit)
            \<and> j < length (addToBasket bandLookup' uid'
                           (addToBasket bandLookup uid basket product unit) product' unit)
            \<and> lineKey (addToBasket bandLookup' uid'
                         (addToBasket bandLookup uid basket product unit) product' unit ! i)
                = (p_id product, unit, resolvedPrice bandLookup product unit)
            \<and> lineKey (addToBasket bandLookup' uid'
                         (addToBasket bandLookup uid basket product unit) product' unit ! j)
                = (p_id product, unit, resolvedPrice bandLookup' product' unit)))"
proof (intro conjI impI allI)
  let ?k = "(p_id product, unit, resolvedPrice bandLookup product unit)"
  let ?b = "addToBasket bandLookup uid basket product unit"
  {
    assume "?k \<in> lineKey ` set basket"
    then have ex: "\<exists>l \<in> set basket. lineKey l = ?k" by auto
    from addToBasket_existing [OF ex]
    show "\<exists>n < length basket. lineKey (basket ! n) = ?k
        \<and> (\<forall>j < n. lineKey (basket ! j) \<noteq> ?k)
        \<and> ?b = basket[n := (basket ! n)\<lparr> l_qty := l_qty (basket ! n) + 1 \<rparr>]"
      by blast
  }
  {
    assume "?k \<notin> lineKey ` set basket"
    then have nex: "\<forall>l \<in> set basket. lineKey l \<noteq> ?k" by (metis imageI)
    from addToBasket_new [OF nex, of uid]
    show "\<exists>l. ?b = basket @ [l] \<and> lineKey l = ?k \<and> l_qty l = 1 \<and> l_key l = uid"
      by (simp add: lineKey_def)
  }
  {
    assume "distinct (map lineKey basket)"
    then show "distinct (map lineKey ?b)"
      by (simp add: map_lineKey_addToBasket)
  }
  {
    assume "basketReachable basket"
    then have "basketReachable ?b" by (rule basketReachable.add)
    then show "distinct (map lineKey ?b)" by (rule basketReachable_distinct)
  }
  {
    fix bandLookup' product' uid'
    let ?k' = "(p_id product, unit, resolvedPrice bandLookup' product' unit)"
    let ?c = "addToBasket bandLookup' uid' ?b product' unit"
    assume a: "p_id product' = p_id product
         \<and> resolvedPrice bandLookup' product' unit \<noteq> resolvedPrice bandLookup product unit"
    have "?k \<in> set (map lineKey ?b)" by (simp add: map_lineKey_addToBasket)
    then have k: "?k \<in> set (map lineKey ?c)"
      by (simp add: map_lineKey_addToBasket [of bandLookup' uid' ?b])
    have k': "?k' \<in> set (map lineKey ?c)"
      using a by (simp add: map_lineKey_addToBasket [of bandLookup' uid' ?b])
    from k obtain i where i: "i < length ?c" "lineKey (?c ! i) = ?k"
      by (auto simp: in_set_conv_nth)
    from k' obtain j where j: "j < length ?c" "lineKey (?c ! j) = ?k'"
      by (auto simp: in_set_conv_nth)
    from i j a have "i \<noteq> j" by auto
    with i j show "\<exists>i j. i \<noteq> j \<and> i < length ?c \<and> j < length ?c
        \<and> lineKey (?c ! i) = ?k \<and> lineKey (?c ! j) = ?k'"
      by blast
  }
qed

theorem addToBasket_groups_by_triple_witness:
  "addToBasket (bandById [band_premium]) ''k2''
     [\<lparr> l_key = ''k1'', l_productId = ''p-gin1'', l_label = ''Tanqueray (Single)'',
        l_unit = ''Single'', l_pricePence = 450, l_qty = 1 \<rparr>] p_gin1 ''Single''
   = [\<lparr> l_key = ''k1'', l_productId = ''p-gin1'', l_label = ''Tanqueray (Single)'',
        l_unit = ''Single'', l_pricePence = 450, l_qty = 2 \<rparr>]
   \<and> (\<exists>l. addToBasket (bandById (updateBandPrice ''band-premium'' ''Single'' 500 [band_premium])) ''k3''
            [\<lparr> l_key = ''k1'', l_productId = ''p-gin1'', l_label = ''Tanqueray (Single)'',
               l_unit = ''Single'', l_pricePence = 450, l_qty = 2 \<rparr>] p_gin1 ''Single''
          = [\<lparr> l_key = ''k1'', l_productId = ''p-gin1'', l_label = ''Tanqueray (Single)'',
               l_unit = ''Single'', l_pricePence = 450, l_qty = 2 \<rparr>, l]
          \<and> lineKey l = (''p-gin1'', ''Single'', 500) \<and> l_qty l = 1 \<and> l_key l = ''k3'')"
proof -
  let ?l1 = "\<lparr> l_key = ''k1'', l_productId = ''p-gin1'', l_label = ''Tanqueray (Single)'',
               l_unit = ''Single'', l_pricePence = 450, l_qty = 1 \<rparr>"
  let ?l2 = "\<lparr> l_key = ''k1'', l_productId = ''p-gin1'', l_label = ''Tanqueray (Single)'',
               l_unit = ''Single'', l_pricePence = 450, l_qty = 2 \<rparr>"
  let ?L = "bandById [band_premium]"
  let ?L' = "bandById (updateBandPrice ''band-premium'' ''Single'' 500 [band_premium])"
  have id: "p_id p_gin1 = ''p-gin1''" by (simp add: p_gin1_def)
  have p: "resolvedPrice ?L p_gin1 ''Single'' = 450"
    by (simp add: resolvedPrice_def resolveUnitsAndPrices_def mapGet_def bandById_def
        band_premium_def p_gin1_def)
  have p': "resolvedPrice ?L' p_gin1 ''Single'' = 500"
    by (simp add: resolvedPrice_def resolveUnitsAndPrices_def mapGet_def bandById_def
        updateBandPrice_def band_premium_def p_gin1_def)
  have "(p_id p_gin1, ''Single'', resolvedPrice ?L p_gin1 ''Single'') \<in> lineKey ` set [?l1]"
    by (simp add: id p lineKey_def)
  with addToBasket_groups_by_triple
         [where product = p_gin1 and unit = "''Single''" and bandLookup = ?L
            and basket = "[?l1]" and uid = "''k2''"]
  obtain n where "n < length [?l1]"
    and "addToBasket ?L ''k2'' [?l1] p_gin1 ''Single''
           = [?l1][n := ([?l1] ! n)\<lparr> l_qty := l_qty ([?l1] ! n) + 1 \<rparr>]"
    by blast
  then have first: "addToBasket ?L ''k2'' [?l1] p_gin1 ''Single'' = [?l2]" by simp
  have "(p_id p_gin1, ''Single'', resolvedPrice ?L' p_gin1 ''Single'') \<notin> lineKey ` set [?l2]"
    by (simp add: id p' lineKey_def)
  with addToBasket_groups_by_triple
         [where product = p_gin1 and unit = "''Single''" and bandLookup = ?L'
            and basket = "[?l2]" and uid = "''k3''"]
  obtain l where "addToBasket ?L' ''k3'' [?l2] p_gin1 ''Single'' = [?l2] @ [l]"
    and "lineKey l = (p_id p_gin1, ''Single'', resolvedPrice ?L' p_gin1 ''Single'')"
    and "l_qty l = 1" and "l_key l = ''k3''"
    by blast
  then have second: "\<exists>l. addToBasket ?L' ''k3'' [?l2] p_gin1 ''Single'' = [?l2, l]
          \<and> lineKey l = (''p-gin1'', ''Single'', 500) \<and> l_qty l = 1 \<and> l_key l = ''k3''"
    by (simp add: id p')
  from first second show ?thesis by simp
qed

lemma decQty_alt:
  "\<forall>l \<in> set b. 1 \<le> l_qty l \<Longrightarrow>
   decQty key b = map (\<lambda>l. if l_key l = key then l\<lparr> l_qty := l_qty l - 1 \<rparr> else l)
                      (filter (\<lambda>l. \<not> (l_key l = key \<and> l_qty l = 1)) b)"
  unfolding decQty_def
proof (induction b)
  case Nil
  then show ?case by simp
next
  case (Cons l b)
  then have "1 \<le> l_qty l" by simp
  with Cons show ?case by (cases "l_qty l = 1") auto
qed

lemma update_qty_positive:
  assumes inv: "\<forall>l \<in> set b. 1 \<le> l_qty l" and n: "n < length b"
  shows "\<forall>l \<in> set (b[n := (b ! n)\<lparr> l_qty := l_qty (b ! n) + 1 \<rparr>]). 1 \<le> l_qty l"
proof
  fix l assume "l \<in> set (b[n := (b ! n)\<lparr> l_qty := l_qty (b ! n) + 1 \<rparr>])"
  then have "l = (b ! n)\<lparr> l_qty := l_qty (b ! n) + 1 \<rparr> \<or> l \<in> set b"
    using set_update_subset_insert [of b n] by fastforce
  moreover have "1 \<le> l_qty (b ! n)" using inv n by simp
  ultimately show "1 \<le> l_qty l" using inv by auto
qed

lemma addToBasket_qty_positive:
  assumes inv: "\<forall>l \<in> set b. 1 \<le> l_qty l"
  shows "\<forall>l \<in> set (addToBasket bandLookup uid b product unit). 1 \<le> l_qty l"
proof (cases "(p_id product, unit, resolvedPrice bandLookup product unit) \<in> lineKey ` set b")
  case True
  then have ex: "\<exists>l \<in> set b. lineKey l = (p_id product, unit, resolvedPrice bandLookup product unit)"
    by auto
  show ?thesis
    using update_qty_positive [OF inv addToBasket_existing(1) [OF ex]]
    by (simp only: addToBasket_existing(4) [OF ex, of uid])
next
  case False
  then have nex: "\<forall>l \<in> set b. lineKey l \<noteq> (p_id product, unit, resolvedPrice bandLookup product unit)"
    by (metis imageI)
  show ?thesis using addToBasket_new [OF nex, of uid] inv by simp
qed

text \<open>No reachable basket has a line with a quantity below 1.\<close>

lemma basketReachable_positive:
  "basketReachable b \<Longrightarrow> \<forall>l \<in> set b. 1 \<le> l_qty l"
proof (induction rule: basketReachable.induct)
  case start
  show ?case by simp
next
  case (add b bandLookup uid product unit)
  from add.IH show ?case by (rule addToBasket_qty_positive)
next
  case (inc b key)
  then show ?case by (auto simp: incQty_def)
next
  case (dec b key)
  show ?case by (auto simp: decQty_def)
next
  case (remove b key)
  then show ?case by (auto simp: removeLine_def)
qed

text \<open>
  C10. \<open>decQty\<close> never leaves a line with a quantity below 1, and every line of a
  basket the component can reach has a quantity of at least 1. When every line of the
  basket has a quantity of at least 1, the same holds after \<open>addToBasket\<close>, \<open>incQty\<close>
  and \<open>removeLine\<close>, and \<open>decQty\<close> removes the lines with the given key whose
  quantity is 1, lowers the other lines with that key by 1 and leaves the rest.
\<close>

theorem quantities_stay_positive:
  "(\<forall>l \<in> set (decQty key b). 1 \<le> l_qty l)
   \<and> (basketReachable b \<longrightarrow> (\<forall>l \<in> set b. 1 \<le> l_qty l))
   \<and> ((\<forall>l \<in> set b. 1 \<le> l_qty l) \<longrightarrow>
        (\<forall>l \<in> set (addToBasket bandLookup uid b product unit). 1 \<le> l_qty l)
      \<and> (\<forall>l \<in> set (incQty key b). 1 \<le> l_qty l)
      \<and> (\<forall>l \<in> set (removeLine key b). 1 \<le> l_qty l)
      \<and> decQty key b = map (\<lambda>l. if l_key l = key then l\<lparr> l_qty := l_qty l - 1 \<rparr> else l)
                           (filter (\<lambda>l. \<not> (l_key l = key \<and> l_qty l = 1)) b))"
proof (intro conjI impI)
  show "\<forall>l \<in> set (decQty key b). 1 \<le> l_qty l"
    by (auto simp: decQty_def)
next
  assume "basketReachable b"
  then show "\<forall>l \<in> set b. 1 \<le> l_qty l" by (rule basketReachable_positive)
next
  assume inv: "\<forall>l \<in> set b. 1 \<le> l_qty l"
  show "\<forall>l \<in> set (addToBasket bandLookup uid b product unit). 1 \<le> l_qty l"
    by (rule addToBasket_qty_positive [OF inv])
  show "\<forall>l \<in> set (incQty key b). 1 \<le> l_qty l"
    using inv by (auto simp: incQty_def)
  show "\<forall>l \<in> set (removeLine key b). 1 \<le> l_qty l"
    using inv by (auto simp: removeLine_def)
  show "decQty key b = map (\<lambda>l. if l_key l = key then l\<lparr> l_qty := l_qty l - 1 \<rparr> else l)
                           (filter (\<lambda>l. \<not> (l_key l = key \<and> l_qty l = 1)) b)"
    by (rule decQty_alt [OF inv])
qed

theorem quantities_stay_positive_witness:
  "decQty ''k1''
     [\<lparr> l_key = ''k1'', l_productId = ''p-gin1'', l_label = ''Tanqueray (Single)'',
        l_unit = ''Single'', l_pricePence = 450, l_qty = 1 \<rparr>,
      \<lparr> l_key = ''k2'', l_productId = ''p-guin'', l_label = ''Guinness (Pint)'',
        l_unit = ''Pint'', l_pricePence = 660, l_qty = 2 \<rparr>]
   = [\<lparr> l_key = ''k2'', l_productId = ''p-guin'', l_label = ''Guinness (Pint)'',
        l_unit = ''Pint'', l_pricePence = 660, l_qty = 2 \<rparr>]
   \<and> decQty ''k2''
     [\<lparr> l_key = ''k1'', l_productId = ''p-gin1'', l_label = ''Tanqueray (Single)'',
        l_unit = ''Single'', l_pricePence = 450, l_qty = 1 \<rparr>,
      \<lparr> l_key = ''k2'', l_productId = ''p-guin'', l_label = ''Guinness (Pint)'',
        l_unit = ''Pint'', l_pricePence = 660, l_qty = 2 \<rparr>]
   = [\<lparr> l_key = ''k1'', l_productId = ''p-gin1'', l_label = ''Tanqueray (Single)'',
        l_unit = ''Single'', l_pricePence = 450, l_qty = 1 \<rparr>,
      \<lparr> l_key = ''k2'', l_productId = ''p-guin'', l_label = ''Guinness (Pint)'',
        l_unit = ''Pint'', l_pricePence = 660, l_qty = 1 \<rparr>]"
proof -
  let ?b = "[\<lparr> l_key = ''k1'', l_productId = ''p-gin1'', l_label = ''Tanqueray (Single)'',
        l_unit = ''Single'', l_pricePence = 450, l_qty = 1 \<rparr>,
      \<lparr> l_key = ''k2'', l_productId = ''p-guin'', l_label = ''Guinness (Pint)'',
        l_unit = ''Pint'', l_pricePence = 660, l_qty = 2 \<rparr>]"
  have inv: "\<forall>l \<in> set ?b. 1 \<le> l_qty l" by simp
  from quantities_stay_positive [where b = ?b and key = "''k1''", THEN conjunct2, THEN conjunct2, THEN mp, OF inv]
  have one: "decQty ''k1'' ?b
      = map (\<lambda>l. if l_key l = ''k1'' then l\<lparr> l_qty := l_qty l - 1 \<rparr> else l)
            (filter (\<lambda>l. \<not> (l_key l = ''k1'' \<and> l_qty l = 1)) ?b)"
    by blast
  from quantities_stay_positive [where b = ?b and key = "''k2''", THEN conjunct2, THEN conjunct2, THEN mp, OF inv]
  have two: "decQty ''k2'' ?b
      = map (\<lambda>l. if l_key l = ''k2'' then l\<lparr> l_qty := l_qty l - 1 \<rparr> else l)
            (filter (\<lambda>l. \<not> (l_key l = ''k2'' \<and> l_qty l = 1)) ?b)"
    by blast
  show ?thesis unfolding one two by simp
qed

end
